theory Spec2Isabelle
  imports Complex_Main
begin

chapter \<open>The embedding\<close>

section \<open>Errors raised by the notebook code\<close>

text \<open>
  The notebooks contain no exception handler, so a raised exception ends the cell (or the
  callback) that raised it. The two exceptions the modelled code can raise are a missing
  dictionary key and an array index out of bounds. County identifiers are the pairs
  (state number, county number) the sample data uses as keys.
\<close>

type_synonym county_id = "nat \<times> nat"

datatype py_error = KeyError county_id | IndexError int

section \<open>The Texas choropleth notebook\<close>

text \<open>
  The cell "Declaring data" of the choropleth notebook:
  \<^verbatim>\<open>
  counties = {
      code: county for code, county in counties.items() if county["state"] == "tx"
  }
  county_xs = [county["lons"] for county in counties.values()]
  county_ys = [county["lats"] for county in counties.values()]
  county_names = [county['name'] for county in counties.values()]
  county_rates = [unemployment[county_id] for county_id in counties]
  county_polys = {name: hv.Polygons((xs, ys), level=rate, vdims=['Unemployment'])
                  for name, xs, ys, rate in zip(county_names, county_xs, county_ys, county_rates)}
  choropleth = hv.NdOverlay(county_polys, kdims=['County'])
  \<close>
  A county of the sample data is a dictionary with the keys read below. The dictionary
  \<open>counties\<close> is an association list in iteration order (\<open>items()\<close>, \<open>values()\<close> and
  iteration over the keys all follow it); \<open>unemployment\<close> is only looked up, so it is a
  map. Coordinates and rates are numbers the cell passes on without computing with them.
\<close>

record county =
  name :: string
  state :: string
  lons :: "real list"
  lats :: "real list"

record polygons =
  poly_xs :: "real list"
  poly_ys :: "real list"
  level :: real
  vdims :: "string list"

record nd_overlay =
  overlay_items :: "string \<rightharpoonup> polygons"
  kdims :: "string list"

definition filter_tx :: "(county_id \<times> county) list \<Rightarrow> (county_id \<times> county) list" where
  "filter_tx counties = filter (\<lambda>(code, county). state county = ''tx'') counties"

definition county_xs :: "(county_id \<times> county) list \<Rightarrow> real list list" where
  "county_xs counties = map (\<lambda>(code, county). lons county) counties"

definition county_ys :: "(county_id \<times> county) list \<Rightarrow> real list list" where
  "county_ys counties = map (\<lambda>(code, county). lats county) counties"

definition county_names :: "(county_id \<times> county) list \<Rightarrow> string list" where
  "county_names counties = map (\<lambda>(code, county). name county) counties"

text \<open>\<open>unemployment[county_id]\<close> raises KeyError at the first identifier it does not hold.\<close>

fun county_rates :: "(county_id \<rightharpoonup> real) \<Rightarrow> county_id list \<Rightarrow> py_error + real list" where
  "county_rates unemployment [] = Inr []"
| "county_rates unemployment (county_id # ids) =
     (case unemployment county_id of
        None \<Rightarrow> Inl (KeyError county_id)
      | Some rate \<Rightarrow>
          (case county_rates unemployment ids of
             Inl e \<Rightarrow> Inl e
           | Inr rates \<Rightarrow> Inr (rate # rates)))"

text \<open>
  The dictionary comprehension stores the entries in order, so of two entries with the
  same name the later one stays.
\<close>

fun county_polys ::
  "(string \<times> real list \<times> real list \<times> real) list \<Rightarrow> (string \<rightharpoonup> polygons) \<Rightarrow> (string \<rightharpoonup> polygons)" where
  "county_polys [] d = d"
| "county_polys ((nm, xs, ys, rate) # rest) d =
     county_polys rest
       (d(nm \<mapsto> \<lparr>poly_xs = xs, poly_ys = ys, level = rate, vdims = [''Unemployment'']\<rparr>))"

definition choropleth ::
  "(county_id \<times> county) list \<Rightarrow> (county_id \<rightharpoonup> real) \<Rightarrow> py_error + nd_overlay" where
  "choropleth counties0 unemployment =
     (let counties = filter_tx counties0 in
      case county_rates unemployment (map fst counties) of
        Inl e \<Rightarrow> Inl e
      | Inr rates \<Rightarrow>
          Inr \<lparr>overlay_items =
                 county_polys
                   (zip (county_names counties)
                      (zip (county_xs counties) (zip (county_ys counties) rates)))
                   Map.empty,
               kdims = [''County'']\<rparr>)"

text \<open>A small input of the shape of the sample data: two counties of Texas, one of California.\<close>

definition demo_counties :: "(county_id \<times> county) list" where
  "demo_counties =
     [((48, 1), \<lparr>name = ''Anderson'', state = ''tx'', lons = [-95.7, -95.4], lats = [31.6, 31.9]\<rparr>),
      ((6, 1), \<lparr>name = ''Alameda'', state = ''ca'', lons = [-122.3, -121.5], lats = [37.5, 37.9]\<rparr>),
      ((48, 3), \<lparr>name = ''Andrews'', state = ''tx'', lons = [-103.0, -102.2], lats = [32.1, 32.5]\<rparr>)]"

definition demo_unemployment :: "county_id \<rightharpoonup> real" where
  "demo_unemployment = [(48, 1) \<mapsto> 9.1, (6, 1) \<mapsto> 10.5, (48, 3) \<mapsto> 6]"

section \<open>The slider of \<open>modify_doc\<close>\<close>

text \<open>
  In the notebook on deploying apps, \<open>modify_doc\<close> creates a slider and a periodic
  callback that moves it:
  \<^verbatim>\<open>
  def animate_update():
      year = slider.value + 0.2
      if year > end:
          year = start
      slider.value = year
  ...
  start, end = 0, np.pi*2
  slider = Slider(start=start, end=end, value=start, step=0.2, title="Phase")
  \<close>
  The slider is the state the callback updates; \<open>start\<close> and \<open>end\<close> are variables of
  the enclosing function, read by the callback. Floating-point numbers are taken as real
  numbers. The name \<open>end\<close> is written \<open>end'\<close>.
\<close>

record slider =
  slider_start :: real
  slider_end :: real
  slider_value :: real
  slider_step :: real
  slider_title :: string

definition animate_update :: "real \<Rightarrow> real \<Rightarrow> slider \<Rightarrow> slider" where
  "animate_update start end' slider =
     (let year = slider_value slider + 0.2;
          year = (if year > end' then start else year)
      in slider\<lparr>slider_value := year\<rparr>)"

definition start :: real where
  "start = 0"

definition end' :: real where
  "end' = pi * 2"

definition new_slider :: slider where
  "new_slider = \<lparr>slider_start = start, slider_end = end', slider_value = start,
                  slider_step = 0.2, slider_title = ''Phase''\<rparr>"

text \<open>The slider after the periodic callback has run \<open>n\<close> times.\<close>

primrec slider_after :: "nat \<Rightarrow> slider" where
  "slider_after 0 = new_slider"
| "slider_after (Suc n) = animate_update start end' (slider_after n)"

section \<open>The selection callback \<open>selected_info\<close>\<close>


text \<open>
  Indexing an array with a list of integers picks the rows in the order of the list; a
  negative index counts from the end, and an index outside \<open>-n \<dots> n-1\<close> raises IndexError.
\<close>

definition row_at :: "'a list \<Rightarrow> int \<Rightarrow> 'a" where
  "row_at a i = a ! nat (if i < 0 then i + int (length a) else i)"

fun take_rows :: "'a list \<Rightarrow> int list \<Rightarrow> py_error + 'a list" where
  "take_rows a [] = Inr []"
| "take_rows a (i # idx) =
     (if - int (length a) \<le> i \<and> i < int (length a) then
        (case take_rows a idx of Inl e \<Rightarrow> Inl e | Inr rows \<Rightarrow> Inr (row_at a i # rows))
      else Inl (IndexError i))"










subsection \<open>What a number formatted with three decimals reads as\<close>




section \<open>Columnar elements and their storage backends\<close>

text \<open>
  The columnar notebook builds elements from a dictionary of columns, from an N-by-D array
  and from a dataframe, and with an explicit \<open>datatype\<close> list:
  \<^verbatim>\<open>
  hv.Scatter({'x': xs, 'y': ys}) + hv.Scatter(np.column_stack([xs, ys])) +
      hv.Scatter(pd.DataFrame({'x': xs, 'y': ys}))
  hv.Scatter((xs, ys), datatype=['array'])
  hv.Scatter((xs, ys), datatype=['dictionary'])
  hv.Scatter((xs, ys), datatype=['dataframe'])
  \<close>
  The constructors belong to the library, whose code is not among the source files; the
  definitions of this section follow the specification and the notebook's description of
  them. Numbers are taken as real numbers.
\<close>

text \<open>Modelled from the spec: the values a column holds. The array backend is "a purely
  numpy based format for numeric data"; the other two also hold text.
\<close>

datatype datum = Number real | Text string

text \<open>Modelled from the spec: the names of the three storage backends ("column-dictionary,
  N-by-D array, and tabular dataframe"), as the \<open>datatype\<close> parameter lists them.
\<close>

datatype storage_format = array_format | dictionary_format | dataframe_format

text \<open>Modelled from the spec: the stored data of the library's columnar element. A dictionary
  maps each column name to its column; an array is a list of N rows of D numbers; a
  dataframe is its column labels and its rows.
\<close>

datatype storage =
    Dictionary "(string \<times> datum list) list"
  | Array "real list list"
  | Dataframe "string list" "datum list list"

text \<open>Modelled from the spec: the library's columnar element, with its key dimensions, its
  value dimensions and its data.
\<close>

record columns_element =
  ce_kdims :: "string list"
  ce_vdims :: "string list"
  ce_data :: storage

text \<open>Modelled from the spec: turning columns into the rows of an N-by-D table, and rows into
  columns (\<open>n\<close> is the number of lists asked for).
\<close>

definition transpose_to :: "nat \<Rightarrow> 'a list list \<Rightarrow> 'a list list" where
  "transpose_to n xss = map (\<lambda>i. map (\<lambda>xs. xs ! i) xss) [0..<n]"

text \<open>Modelled from the spec: the number N of rows of a list of columns.\<close>

definition n_rows :: "'a list list \<Rightarrow> nat" where
  "n_rows cols = (case cols of [] \<Rightarrow> 0 | c # _ \<Rightarrow> length c)"

text \<open>Modelled from the spec: whether a value is numeric, and the number it holds.\<close>

fun is_number :: "datum \<Rightarrow> bool" where
  "is_number (Number x) = True"
| "is_number (Text s) = False"

fun number_of :: "datum \<Rightarrow> real" where
  "number_of (Number x) = x"
| "number_of (Text s) = 0"

text \<open>Modelled from the spec: what one storage backend of the library makes of the columns
  of the dimensions \<open>dims\<close>. The array backend cannot interpret data that is not purely
  numeric; the other two hold any columns.
\<close>

fun init_storage :: "storage_format \<Rightarrow> string list \<Rightarrow> datum list list \<Rightarrow> storage option" where
  "init_storage array_format dims cols =
     (if list_all (list_all is_number) cols
      then Some (Array (transpose_to (n_rows cols) (map (map number_of) cols)))
      else None)"
| "init_storage dictionary_format dims cols = Some (Dictionary (zip dims cols))"
| "init_storage dataframe_format dims cols =
     Some (Dataframe dims (transpose_to (n_rows cols) cols))"

text \<open>Modelled from the spec: the library's fallback resolution. "Columns will attempt to
  parse the supplied data falling back to each consecutive interface if the previous could
  not interpret the data"; with no backend left the construction fails.
\<close>

fun resolve :: "storage_format list \<Rightarrow> string list \<Rightarrow> datum list list \<Rightarrow> storage option" where
  "resolve [] dims cols = None"
| "resolve (f # fs) dims cols =
     (case init_storage f dims cols of Some s \<Rightarrow> Some s | None \<Rightarrow> resolve fs dims cols)"

text \<open>Modelled from the spec: the library's default list of backends. "By default Columns
  will try to construct a simple array, falling back to either pandas dataframes (if
  available) or the dictionary based format if the data is not purely numeric."
\<close>

definition default_datatype :: "storage_format list" where
  "default_datatype = [array_format, dataframe_format, dictionary_format]"

text \<open>Modelled from the spec: the library's constructor of a columnar element (\<open>hv.Scatter\<close>,
  \<open>hv.Table\<close> and the like) from the columns of its key and value dimensions, with the
  \<open>datatype\<close> list of allowed backends.
\<close>

definition Columns ::
  "string list \<Rightarrow> string list \<Rightarrow> storage_format list \<Rightarrow> datum list list \<Rightarrow>
     columns_element option" where
  "Columns kd vd datatype cols =
     map_option (\<lambda>s. \<lparr>ce_kdims = kd, ce_vdims = vd, ce_data = s\<rparr>)
       (resolve datatype (kd @ vd) cols)"

text \<open>Modelled from the spec: the backend that holds an element's data.\<close>

fun format_of :: "storage \<Rightarrow> storage_format" where
  "format_of (Dictionary d) = dictionary_format"
| "format_of (Array rows) = array_format"
| "format_of (Dataframe labels rows) = dataframe_format"

text \<open>Modelled from the spec: the position of a dimension among the dimensions.\<close>

fun position :: "'a \<Rightarrow> 'a list \<Rightarrow> nat" where
  "position x [] = 0"
| "position x (y # ys) = (if x = y then 0 else Suc (position x ys))"

text \<open>Modelled from the spec: the library's read-out of one dimension's column from the stored
  data, whatever the backend.
\<close>

fun dimension_values :: "storage \<Rightarrow> string list \<Rightarrow> string \<Rightarrow> datum list" where
  "dimension_values (Dictionary d) dims nm = (case map_of d nm of Some c \<Rightarrow> c | None \<Rightarrow> [])"
| "dimension_values (Array rows) dims nm = map (\<lambda>r. Number (r ! position nm dims)) rows"
| "dimension_values (Dataframe labels rows) dims nm = map (\<lambda>r. r ! position nm labels) rows"

text \<open>Modelled from the spec: the tabular data of an element, one column for each of its
  dimensions, in their order.
\<close>

definition table :: "columns_element \<Rightarrow> datum list list" where
  "table e =
     map (dimension_values (ce_data e) (ce_kdims e @ ce_vdims e)) (ce_kdims e @ ce_vdims e)"

definition demo_xs :: "datum list" where
  "demo_xs = [Number 0, Number 1, Number 2]"

definition demo_ys :: "datum list" where
  "demo_ys = [Number 0, Number 0.5, Number 1]"

text \<open>
  The columns of the tutorial's bar chart, \<open>hv.Bars((['C', 'A', 'B', 'D'], [2, 7, 3, 4]))\<close>:
  one column of text and one of numbers.
\<close>

definition bars_columns :: "datum list list" where
  "bars_columns =
     [[Text ''C'', Text ''A'', Text ''B'', Text ''D''],
      [Number 2, Number 7, Number 3, Number 4]]"

section \<open>The notebooks as documents\<close>

text \<open>
  The repository is three notebooks: the guide on deploying Bokeh apps, the tutorial on
  columnar data (the second document of the same source file) and the Texas choropleth
  example. A notebook is a list of cells; a cell is markdown (its prose is not kept) or
  code, a list of statements.

  The statements and expressions are those of the Python the cells are written in, with
  these conventions: a dotted name such as \<open>hv.streams.Selection1D\<close> is one name; a
  number keeps the text of its literal and a string its value (bytes outside ASCII as
  \<open>CHR\<close>); the arguments of a call are its positional arguments followed by its keyword
  arguments, \<open>**ranges\<close> being the keyword \<open>**\<close>; \<open>True\<close>, \<open>False\<close> and \<open>None\<close> are
  names; a line or cell magic of IPython (a line that starts with \<open>%\<close>) is kept as its
  text; comments are left out. A comprehension is its element (key and value for a
  dictionary), its target, its iterable and its conditions. Loop statements, exception
  handlers (\<open>try\<close>, \<open>with\<close>) and \<open>raise\<close> are part of the syntax although no cell uses
  them. The conditional statement is written \<open>If'\<close>.
\<close>

datatype expr =
    Name string
  | Num string
  | Str string
  | Attribute expr string
  | Call expr "expr list"
  | Keyword string expr
  | BinOp expr string expr
  | UnaryOp string expr
  | Compare expr string expr
  | Tuple "expr list"
  | List "expr list"
  | Dict "expr list" "expr list"
  | Set "expr list"
  | Subscript expr expr
  | Slice "expr option" "expr option"
  | ListComp expr expr expr "expr list"
  | DictComp expr expr expr expr "expr list"

datatype imported = Alias string "string option"

datatype stmt =
    Import "imported list"
  | ImportFrom string "imported list"
  | Assign "expr list" expr
  | Expr expr
  | Print "expr list"
  | Return expr
  | FunctionDef string "string list" "stmt list"
  | If' expr "stmt list" "stmt list"
  | For expr expr "stmt list"
  | While expr "stmt list"
  | Try "stmt list" "stmt list"
  | With expr "stmt list"
  | Raise expr
  | Magic string

datatype cell = Markdown | Code "stmt list"

subsection \<open>Deploying Bokeh Apps\<close>

text \<open>
  The code cells that define functions are named; the others stand in the list of the
  notebook's cells.
\<close>

definition selected_info_cell :: cell where
  "selected_info_cell =
     (Code
        [Magic ''%%opts Points [tools=['box_select', 'lasso_select']]'',
         Assign [Name ''points'']
           (Call (Name ''hv.Points'')
              [Call (Name ''np.random.randn'') [Num ''1000'', Num ''2'']]),
         Assign [Name ''selection'']
           (Call (Name ''hv.streams.Selection1D'') [Keyword ''source'' (Name ''points'')]),
         FunctionDef ''selected_info'' [''index'']
           [Assign [Name ''arr''] (Subscript (Call (Name ''points.array'') []) (Name ''index'')),
            If' (Name ''index'')
              [Assign [Name ''label'']
                 (BinOp (Str ''Mean x, y: %.3f, %.3f'') ''%''
                    (Call (Name ''tuple'')
                       [Call (Name ''arr.mean'') [Keyword ''axis'' (Num ''0'')]]))]
              [Assign [Name ''label''] (Str ''No selection'')],
            Return
              (Call
                 (Attribute
                    (Call (Name ''points.clone'')
                       [Name ''arr'', Keyword ''label'' (Name ''label'')])
                    ''opts'')
                 [Keyword ''style'' (Call (Name ''dict'') [Keyword ''color'' (Str ''red'')])])],
         Assign [Name ''layout'']
           (BinOp (Name ''points'') ''+''
              (Call (Name ''hv.DynamicMap'')
                 [Name ''selected_info'', Keyword ''streams'' (List [Name ''selection''])])),
         Expr (Name ''layout'')])"

definition sine_cell :: cell where
  "sine_cell =
     (Code
        [FunctionDef ''sine''
           [''frequency'', ''phase'', ''amplitude'']
           [Assign [Name ''xs'']
              (Call (Name ''np.linspace'') [Num ''0'', BinOp (Name ''np.pi'') ''*'' (Num ''4'')]),
            Return
              (Call
                 (Attribute
                    (Call (Name ''hv.Curve'')
                       [Tuple
                          [Name ''xs'',
                           BinOp
                             (Call (Name ''np.sin'')
                                [BinOp
                                   (BinOp (Name ''frequency'') ''*'' (Name ''xs''))
                                   ''+''
                                   (Name ''phase'')])
                             ''*''
                             (Name ''amplitude'')]])
                    ''opts'')
                 [Keyword ''plot'' (Call (Name ''dict'') [Keyword ''width'' (Num ''800'')])])],
         Assign [Name ''ranges'']
           (Call (Name ''dict'')
              [Keyword ''frequency'' (Tuple [Num ''1'', Num ''5'']),
               Keyword ''phase'' (Tuple [UnaryOp ''-'' (Name ''np.pi''), Name ''np.pi'']),
               Keyword ''amplitude'' (Tuple [UnaryOp ''-'' (Num ''2''), Num ''2'']),
               Keyword ''y'' (Tuple [UnaryOp ''-'' (Num ''2''), Num ''2''])]),
         Assign [Name ''dmap'']
           (Call
              (Attribute
                 (Attribute
                    (Call (Name ''hv.DynamicMap'')
                       [Name ''sine'',
                        Keyword ''kdims''
                          (List [Str ''frequency'', Str ''phase'', Str ''amplitude''])])
                    ''redim'')
                 ''range'')
              [Keyword ''**'' (Name ''ranges'')]),
         Assign [Name ''app''] (Call (Name ''renderer.app'') [Name ''dmap'']),
         Expr (Call (Name ''print'') [Name ''app''])])"

definition show_callback_cell :: cell where
  "show_callback_cell =
     (Code
        [FunctionDef ''show_callback'' [] [Expr (Call (Name ''server.show'') [Str ''/''])],
         Expr (Call (Name ''loop.add_callback'') [Name ''show_callback'']),
         Expr (Call (Name ''server.start'') [])])"

definition periodic_sine_cell :: cell where
  "periodic_sine_cell =
     (Code
        [FunctionDef ''sine'' [''counter'']
           [Assign [Name ''phase'']
              (BinOp
                 (BinOp (BinOp (Name ''counter'') ''*'' (Num ''0.1'')) ''%'' (Name ''np.pi''))
                 ''*''
                 (Num ''2'')),
            Assign [Name ''xs'']
              (Call (Name ''np.linspace'') [Num ''0'', BinOp (Name ''np.pi'') ''*'' (Num ''4'')]),
            Return
              (Call
                 (Attribute
                    (Call (Name ''hv.Curve'')
                       [Tuple
                          [Name ''xs'',
                           Call (Name ''np.sin'') [BinOp (Name ''xs'') ''+'' (Name ''phase'')]]])
                    ''opts'')
                 [Keyword ''plot'' (Call (Name ''dict'') [Keyword ''width'' (Num ''800'')])])],
         Assign [Name ''dmap'']
           (Call (Name ''hv.DynamicMap'')
              [Name ''sine'',
               Keyword ''streams'' (List [Call (Name ''hv.streams.Counter'') []])]),
         Assign [Name ''app'']
           (Call (Name ''renderer.app'')
              [Name ''dmap'',
               Keyword ''show'' (Name ''True''),
               Keyword ''websocket_origin'' (Str ''localhost:8888'')])])"

definition modify_doc_cell :: cell where
  "modify_doc_cell =
     (Code
        [Import [Alias ''numpy'' (Some ''np'')],
         Import [Alias ''holoviews'' (Some ''hv'')],
         ImportFrom ''bokeh.application.handlers'' [Alias ''FunctionHandler'' None],
         ImportFrom ''bokeh.application'' [Alias ''Application'' None],
         ImportFrom ''bokeh.io'' [Alias ''show'' None],
         ImportFrom ''bokeh.layouts'' [Alias ''layout'' None],
         ImportFrom ''bokeh.models'' [Alias ''Slider'' None, Alias ''Button'' None],
         Assign [Name ''renderer'']
           (Call
              (Attribute (Call (Name ''hv.renderer'') [Str ''bokeh'']) ''instance'')
              [Keyword ''mode'' (Str ''server'')]),
         FunctionDef ''sine'' [''phase'']
           [Assign [Name ''xs'']
              (Call (Name ''np.linspace'') [Num ''0'', BinOp (Name ''np.pi'') ''*'' (Num ''4'')]),
            Return
              (Call
                 (Attribute
                    (Call (Name ''hv.Curve'')
                       [Tuple
                          [Name ''xs'',
                           Call (Name ''np.sin'') [BinOp (Name ''xs'') ''+'' (Name ''phase'')]]])
                    ''opts'')
                 [Keyword ''plot'' (Call (Name ''dict'') [Keyword ''width'' (Num ''800'')])])],
         Assign [Name ''stream'']
           (Call
              (Call (Name ''hv.streams.Stream.define'')
                 [Str ''Phase'', Keyword ''phase'' (Num ''0.'')])
              []),
         Assign [Name ''dmap'']
           (Call (Name ''hv.DynamicMap'')
              [Name ''sine'', Keyword ''streams'' (List [Name ''stream''])]),
         FunctionDef ''modify_doc'' [''doc'']
           [Assign [Name ''hvplot'']
              (Call (Name ''renderer.get_plot'') [Name ''dmap'', Name ''doc'']),
            FunctionDef ''animate_update'' []
              [Assign [Name ''year''] (BinOp (Name ''slider.value'') ''+'' (Num ''0.2'')),
               If'
                 (Compare (Name ''year'') ''>'' (Name ''end''))
                 [Assign [Name ''year''] (Name ''start'')]
                 [],
               Assign [Name ''slider.value''] (Name ''year'')],
            FunctionDef ''slider_update'' [''attrname'', ''old'', ''new'']
              [Expr (Call (Name ''stream.event'') [Keyword ''phase'' (Name ''new'')])],
            Assign [Tuple [Name ''start'', Name ''end'']]
              (Tuple [Num ''0'', BinOp (Name ''np.pi'') ''*'' (Num ''2'')]),
            Assign [Name ''slider'']
              (Call (Name ''Slider'')
                 [Keyword ''start'' (Name ''start''),
                  Keyword ''end'' (Name ''end''),
                  Keyword ''value'' (Name ''start''),
                  Keyword ''step'' (Num ''0.2''),
                  Keyword ''title'' (Str ''Phase'')]),
            Expr (Call (Name ''slider.on_change'') [Str ''value'', Name ''slider_update'']),
            FunctionDef ''animate'' []
              [If'
                 (Compare (Name ''button.label'') ''==''
                    (Str ([CHR 0xE2, CHR 0x96, CHR 0xBA] @ '' Play'')))
                 [Assign [Name ''button.label'']
                    (Str
                       ([CHR 0xE2, CHR 0x9D, CHR 0x9A, CHR 0xE2, CHR 0x9D, CHR 0x9A] @ '' Pause'')),
                  Expr
                    (Call (Name ''doc.add_periodic_callback'')
                       [Name ''animate_update'', Num ''50''])]
                 [Assign [Name ''button.label'']
                    (Str ([CHR 0xE2, CHR 0x96, CHR 0xBA] @ '' Play'')),
                  Expr (Call (Name ''doc.remove_periodic_callback'') [Name ''animate_update''])]],
            Assign [Name ''button'']
              (Call (Name ''Button'')
                 [Keyword ''label'' (Str ([CHR 0xE2, CHR 0x96, CHR 0xBA] @ '' Play'')),
                  Keyword ''width'' (Num ''60'')]),
            Expr (Call (Name ''button.on_click'') [Name ''animate'']),
            Assign [Name ''plot'']
              (Call (Name ''layout'')
                 [List [List [Name ''hvplot.state''], List [Name ''slider'', Name ''button'']],
                  Keyword ''sizing_mode'' (Str ''fixed'')]),
            Expr (Call (Name ''doc.add_root'') [Name ''plot'']),
            Return (Name ''doc'')],
         Assign [Name ''handler''] (Call (Name ''FunctionHandler'') [Name ''modify_doc'']),
         Assign [Name ''app''] (Call (Name ''Application'') [Name ''handler'']),
         Expr
           (Call (Name ''show'')
              [Name ''app'', Keyword ''notebook_url'' (Str ''localhost:8888'')])])"

definition deploying_bokeh_apps :: "cell list" where
  "deploying_bokeh_apps =
     [Markdown,
      Code
        [Import [Alias ''numpy'' (Some ''np'')],
         Import [Alias ''holoviews'' (Some ''hv'')],
         Expr (Call (Name ''hv.extension'') [Str ''bokeh''])],
      Markdown, selected_info_cell, Markdown, Markdown,
      Code
        [Assign [Name ''renderer''] (Call (Name ''hv.renderer'') [Str ''bokeh'']),
         Expr (Call (Name ''print'') [Name ''renderer''])],
      Markdown, Markdown,
      Code
        [Assign [Name ''renderer'']
           (Call (Name ''renderer.instance'') [Keyword ''mode'' (Str ''server'')])],
      Markdown, Markdown, Markdown,
      Code
        [Assign [Name ''hvplot''] (Call (Name ''renderer.get_plot'') [Name ''layout'']),
         Expr (Call (Name ''print'') [Name ''hvplot''])],
      Markdown, Markdown,
      Code [Expr (Name ''hvplot.state'')],
      Markdown, Markdown,
      Code [Assign [Name ''html''] (Call (Name ''renderer.figure_data'') [Name ''hvplot''])],
      Markdown, Markdown,
      Code [Expr (Call (Name ''renderer'') [Name ''layout''])],
      Markdown, Markdown,
      Code
        [Assign [Name ''doc''] (Call (Name ''renderer.server_doc'') [Name ''layout'']),
         Assign [Name ''doc.title''] (Str ''HoloViews App'')],
      Markdown, Markdown, Markdown, Markdown, Markdown, Markdown, sine_cell, Markdown, Markdown,
      Code
        [ImportFrom ''tornado.ioloop'' [Alias ''IOLoop'' None],
         ImportFrom ''bokeh.server.server'' [Alias ''Server'' None],
         Assign [Name ''loop''] (Call (Name ''IOLoop.current'') []),
         Assign [Name ''server'']
           (Call (Name ''Server'')
              [Dict [Str ''/''] [Name ''app''],
               Keyword ''port'' (Num ''0''),
               Keyword ''loop'' (Name ''loop'')])],
      Markdown, show_callback_cell, Markdown,
      Code [Expr (Call (Name ''server.stop'') [])],
      Markdown,
      Code
        [Assign [Name ''server'']
           (Call (Name ''renderer.app'')
              [Name ''dmap'',
               Keyword ''show'' (Name ''True''),
               Keyword ''new_window'' (Name ''True'')])],
      Markdown, Markdown,
      Code [Expr (Call (Name ''server.stop'') [])],
      Markdown, Markdown,
      Code
        [Expr
           (Call (Name ''renderer.app'')
              [Name ''dmap'',
               Keyword ''show'' (Name ''True''),
               Keyword ''websocket_origin'' (Str ''localhost:8888'')])],
      Markdown, Markdown, periodic_sine_cell, Markdown, Markdown,
      Code [Expr (Call (Name ''dmap.periodic'') [Num ''0.1'', Num ''100''])],
      Markdown, Markdown, modify_doc_cell, Markdown, Markdown]"

subsection \<open>The columnar data tutorial\<close>

definition columnar_data :: "cell list" where
  "columnar_data =
     [Markdown,
      Code
        [Import [Alias ''numpy'' (Some ''np'')],
         Import [Alias ''pandas'' (Some ''pd'')],
         Import [Alias ''holoviews'' (Some ''hv'')],
         Expr (Call (Name ''hv.notebook_extension'') [])],
      Markdown, Markdown,
      Code
        [Assign [Name ''xs''] (Call (Name ''range'') [Num ''10'']),
         Assign [Name ''ys''] (Call (Name ''np.linspace'') [Num ''0'', Num ''1'', Num ''10'']),
         Assign [Name ''table'']
           (Call (Name ''hv.Table'')
              [Tuple [Name ''xs'', Name ''ys''],
               Keyword ''kdims'' (List [Str ''x'']),
               Keyword ''vdims'' (List [Str ''y''])])],
      Markdown,
      Code
        [Expr
           (BinOp
              (BinOp
                 (Call (Name ''hv.Scatter'') [Name ''table''])
                 ''+''
                 (Call (Name ''hv.Curve'') [Name ''table'']))
              ''+''
              (Call (Name ''hv.Bars'') [Name ''table'']))],
      Markdown, Markdown, Markdown, Markdown,
      Code
        [Expr
           (Call (Name ''print'')
              [Call (Name ''repr'')
                 [BinOp
                    (BinOp
                       (Call (Name ''hv.Scatter'')
                          [Dict [Str ''x'', Str ''y''] [Name ''xs'', Name ''ys'']])
                       ''+''
                       (Call (Name ''hv.Scatter'')
                          [Call (Name ''np.column_stack'') [List [Name ''xs'', Name ''ys'']]]))
                    ''+''
                    (Call (Name ''hv.Scatter'')
                       [Call (Name ''pd.DataFrame'')
                          [Dict [Str ''x'', Str ''y''] [Name ''xs'', Name ''ys'']]])]])],
      Markdown,
      Code
        [Expr
           (Call (Name ''print'')
              [Call (Name ''repr'')
                 [BinOp
                    (BinOp
                       (Call (Name ''hv.Scatter'') [Name ''ys''])
                       ''+''
                       (Call (Name ''hv.Scatter'') [Tuple [Name ''xs'', Name ''ys'']]))
                    ''+''
                    (Call (Name ''hv.Scatter'')
                       [Call (Name ''zip'') [Name ''xs'', Name ''ys'']])]])],
      Markdown,
      Code
        [Assign [Name ''df'']
           (Call (Name ''pd.DataFrame'')
              [Dict [Str ''x'', Str ''y'', Str ''z'']
                 [Name ''xs'', Name ''ys'', BinOp (Name ''ys'') ''*'' (Num ''2'')]]),
         Print
           [Call (Name ''type'')
              [Attribute (Call (Name ''hv.Scatter'') [Name ''df'']) ''data'']]],
      Markdown,
      Code [Expr (Name ''hv.Columns.datatype'')],
      Markdown,
      Code
        [Expr
           (Call (Name ''print'')
              [Call (Name ''type'')
                 [Attribute
                    (Call (Name ''hv.Scatter'')
                       [Tuple [Name ''xs'', Name ''ys''],
                        Keyword ''datatype'' (List [Str ''array''])])
                    ''data'']]),
         Expr
           (Call (Name ''print'')
              [Call (Name ''type'')
                 [Attribute
                    (Call (Name ''hv.Scatter'')
                       [Tuple [Name ''xs'', Name ''ys''],
                        Keyword ''datatype'' (List [Str ''dictionary''])])
                    ''data'']]),
         Expr
           (Call (Name ''print'')
              [Call (Name ''type'')
                 [Attribute
                    (Call (Name ''hv.Scatter'')
                       [Tuple [Name ''xs'', Name ''ys''],
                        Keyword ''datatype'' (List [Str ''dataframe''])])
                    ''data'']])],
      Markdown, Markdown,
      Code
        [Assign [Name ''overlay'']
           (BinOp
              (Call (Name ''hv.Scatter'')
                 [Name ''df'', Keyword ''kdims'' (Str ''x''), Keyword ''vdims'' (Str ''y'')])
              ''*''
              (Call (Name ''hv.Scatter'')
                 [Name ''df'', Keyword ''kdims'' (Str ''x''), Keyword ''vdims'' (Str ''z'')])),
         Expr (Name ''overlay'')],
      Markdown,
      Code
        [Expr
           (Compare (Name ''overlay.Scatter.I.data'') ''is'' (Name ''overlay.Scatter.II.data''))],
      Markdown, Markdown, Markdown,
      Code [Expr (Call (Name ''table.array'') [])],
      Markdown,
      Code [Expr (Call (Attribute (Call (Name ''table.dframe'') []) ''head'') [])],
      Markdown,
      Code [Expr (Call (Name ''table.columns'') [])],
      Markdown, Markdown, Markdown,
      Code
        [Assign [Name ''bars'']
           (Call (Name ''hv.Bars'')
              [Tuple
                 [List [Str ''C'', Str ''A'', Str ''B'', Str ''D''],
                  List [Num ''2'', Num ''7'', Num ''3'', Num ''4'']]]),
         Expr
           (BinOp
              (BinOp (Name ''bars'') ''+'' (Call (Name ''bars.sort'') []))
              ''+''
              (Call (Name ''bars.sort'') [List [Str ''y'']]))],
      Markdown, Markdown,
      Code
        [Magic ''%%opts Table [aspect=2 fig_size=200]'',
         Expr (Call (Name ''np.random.seed'') [Num ''42'']),
         Assign [Name ''n''] (Call (Name ''np.arange'') [Num ''1000'']),
         Assign [Name ''xs'']
           (Call (Name ''np.repeat'') [Call (Name ''range'') [Num ''2''], Num ''500'']),
         Assign [Name ''ys''] (BinOp (Name ''n'') ''%'' (Num ''4'')),
         Assign [Name ''zs''] (Call (Name ''np.random.randn'') [Num ''1000'']),
         Assign [Name ''table'']
           (Call (Name ''hv.Table'')
              [Tuple [Name ''xs'', Name ''ys'', Name ''zs''],
               Keyword ''kdims'' (List [Str ''x'', Str ''y'']),
               Keyword ''vdims'' (List [Str ''z''])]),
         Expr (Name ''table'')],
      Markdown,
      Code
        [Magic ''%%opts BoxWhisker [aspect=2 fig_size=200 bgcolor='w']'',
         Expr (Call (Name ''hv.BoxWhisker'') [Name ''table''])],
      Markdown, Markdown,
      Code
        [Magic ''%%opts Bars [show_legend=False] {+axiswise}'',
         Expr
           (BinOp
              (Call
                 (Attribute (Call (Name ''hv.Bars'') [Name ''table'']) ''aggregate'')
                 [Keyword ''function'' (Name ''np.mean'')])
              ''+''
              (Call
                 (Attribute (Call (Name ''hv.Bars'') [Name ''table'']) ''reduce'')
                 [Keyword ''x'' (Name ''np.mean'')]))],
      Markdown, Markdown, Markdown,
      Code
        [Assign [Name ''hmap'']
           (Call (Name ''hv.HoloMap'')
              [DictComp (Name ''i'')
                 (Call (Name ''hv.Curve'')
                    [BinOp (Call (Name ''np.arange'') [Num ''10'']) ''*'' (Name ''i'')])
                 (Name ''i'')
                 (Call (Name ''range'') [Num ''10''])
                 []]),
         Assign [Name ''collapsed'']
           (Call (Name ''hmap.collapse'')
              [Keyword ''function'' (Name ''np.mean''), Keyword ''spreadfn'' (Name ''np.std'')]),
         Expr
           (BinOp
              (BinOp
                 (Call (Name ''hv.Spread'') [Name ''collapsed''])
                 ''*''
                 (Call (Name ''hv.Curve'') [Name ''collapsed'']))
              ''+''
              (Call (Name ''collapsed.table'') []))],
      Markdown,
      Code
        [Assign [Name ''macro_df'']
           (Call (Name ''pd.read_csv'')
              [Str ''http://ioam.github.com/holoviews/Tutorials/macro.csv'', Str [CHR 0x09]]),
         Assign [Name ''dimensions'']
           (Dict
              [Str ''unem'',
               Str ''capmob'',
               Str ''gdp'',
               Str ''trade'',
               Str ''year'',
               Str ''country'']
              [Str ''Unemployment'',
               Str ''Capital Mobility'',
               Str ''GDP Growth'',
               Str ''Trade'',
               Str ''Year'',
               Str ''Country'']),
         Assign [Name ''macro_df'']
           (Call (Name ''macro_df.rename'') [Keyword ''columns'' (Name ''dimensions'')])],
      Markdown,
      Code
        [Magic ''%output dpi=100'',
         Assign [Name ''options''] (Call (Name ''hv.Store.options'') []),
         Assign [Name ''opts'']
           (Call (Name ''hv.Options'')
              [Str ''plot'',
               Keyword ''aspect'' (Num ''2''),
               Keyword ''fig_size'' (Num ''250''),
               Keyword ''show_frame'' (Name ''False''),
               Keyword ''show_grid'' (Name ''True''),
               Keyword ''legend_position'' (Str ''right'')]),
         Assign [Name ''options.NdOverlay''] (Name ''opts''),
         Assign [Name ''options.Overlay''] (Name ''opts'')],
      Markdown,
      Code
        [Assign [Name ''macro'']
           (Call (Name ''hv.Table'')
              [Name ''macro_df'', Keyword ''kdims'' (List [Str ''Year'', Str ''Country''])])],
      Markdown,
      Code
        [Magic ''%%opts Table [aspect=1.5 fig_size=300]'',
         Assign [Name ''macro''] (Call (Name ''macro.sort'') []),
         Expr (Subscript (Name ''macro'') (Num ''1988''))],
      Markdown,
      Code
        [Magic ''%%opts Curve (color=Palette('Set3'))'',
         Assign [Name ''gdp_curves'']
           (Call (Name ''macro.to.curve'') [Str ''Year'', Str ''GDP Growth'']),
         Expr (Call (Name ''gdp_curves.overlay'') [Str ''Country''])],
      Markdown,
      Code
        [Magic
           ''%%opts Overlay [bgcolor='w' legend_position='top_right'] Curve (color='k' linewidth=1) Spread (color='gray' alpha=0.2)'',
         Expr
           (BinOp
              (Call (Name ''hv.Spread'')
                 [Call (Name ''gdp_curves.collapse'')
                    [Str ''Country'', Name ''np.mean'', Name ''np.std''],
                  Keyword ''label'' (Str ''std'')])
              ''*''
              (Call (Name ''hv.Overlay'')
                 [ListComp
                    (Call
                       (Call
                          (Attribute
                             (Call (Name ''gdp_curves.collapse'') [Str ''Country'', Name ''fn''])
                             ''relabel'')
                          [Name ''name''])
                       [Keyword ''style''
                          (Call (Name ''dict'') [Keyword ''linestyle'' (Name ''ls'')])])
                    (Tuple [Name ''name'', Name ''fn'', Name ''ls''])
                    (List
                       [Tuple [Str ''max'', Name ''np.max'', Str ''--''],
                        Tuple [Str ''mean'', Name ''np.mean'', Str ''-''],
                        Tuple [Str ''min'', Name ''np.min'', Str ''--'']])
                    []]))],
      Markdown,
      Code [Magic ''%opts Bars [bgcolor='w' aspect=3 figure_size=450 show_frame=False]''],
      Code
        [Magic
           ''%%opts Bars [category_index=2 stack_index=0 group_index=1 legend_position='top' legend_cols=7 color_by=['stack']] (color=Palette('Dark2'))'',
         Expr
           (Call (Name ''macro.to.bars'')
              [List [Str ''Country'', Str ''Year''], Str ''Trade'', List []])],
      Markdown,
      Code
        [Magic
           ''%%opts Bars [padding=0.02 color_by=['group']] (alpha=0.6, color=Palette('Set1', reverse=True)[0.:.2])'',
         Assign [Name ''countries'']
           (Set [Str ''Belgium'', Str ''Netherlands'', Str ''Sweden'', Str ''Norway'']),
         Expr
           (Call
              (Attribute
                 (Call (Name ''macro.to.bars'')
                    [List [Str ''Country'', Str ''Year''], Str ''Unemployment''])
                 ''select'')
              [Keyword ''Year'' (Tuple [Num ''1978'', Num ''1985'']),
               Keyword ''Country'' (Name ''countries'')])],
      Markdown,
      Code
        [Magic
           ''%opts HeatMap [show_values=False xticks=40 xrotation=90 aspect=1.2 invert_yaxis=True]'',
         Magic ''%opts Layout [figure_size=120 aspect_weight=0.2]''],
      Code
        [Expr
           (Call
              (Attribute
                 (Call (Name ''hv.Layout'')
                    [ListComp
                       (Call
                          (Attribute
                             (Call (Name ''macro.to.heatmap'')
                                [List [Str ''Year'', Str ''Country''], Name ''value''])
                             ''relabel'')
                          [Name ''value''])
                       (Name ''value'')
                       (Subscript (Name ''macro.data.columns'') (Slice (Some (Num ''2'')) None))
                       []])
                 ''cols'')
              [Num ''2''])],
      Markdown,
      Code
        [Magic ''%%opts Scatter [scaling_factor=1.4] (color=Palette('Set3') edgecolors='k')'',
         Assign [Name ''gdp_unem_scatter'']
           (Call (Name ''macro.to.scatter'')
              [Str ''Year'', List [Str ''GDP Growth'', Str ''Unemployment'']]),
         Expr (Call (Name ''gdp_unem_scatter.overlay'') [Str ''Country''])],
      Markdown,
      Code
        [Magic
           ''%%opts NdOverlay [legend_cols=2] Scatter [size_index=1 scaling_factor=1.3] (color=Palette('Blues'))'',
         Expr
           (Call
              (Attribute
                 (Call (Name ''macro.to.scatter'')
                    [Str ''GDP Growth'', Str ''Unemployment'', List [Str ''Year'']])
                 ''overlay'')
              [])],
      Markdown, Markdown,
      Code
        [Magic
           ''%%opts Curve (color='k') Scatter [color_index=2 size_index=2 scaling_factor=1.4] (cmap='Blues' edgecolors='k')'',
         Assign [Name ''macro_overlay'']
           (BinOp (Name ''gdp_curves'') ''*'' (Name ''gdp_unem_scatter'')),
         Assign [Name ''annotations'']
           (BinOp
              (BinOp
                 (BinOp
                    (Call (Name ''hv.Arrow'')
                       [Num ''1973'', Num ''8'', Str ''Oil Crisis'', Str ''v''])
                    ''*''
                    (Call (Name ''hv.Arrow'')
                       [Num ''1975'', Num ''6'', Str ''Stagflation'', Str ''v'']))
                 ''*''
                 (Call (Name ''hv.Arrow'')
                    [Num ''1979'', Num ''8'', Str ''Energy Crisis'', Str ''v'']))
              ''*''
              (Call (Name ''hv.Arrow'')
                 [Num ''1981.9'',
                  Num ''5'',
                  Str (''Early Eighties'' @ [CHR 0x0A] @ '' Recession''),
                  Str ''v''])),
         Expr (BinOp (Name ''macro_overlay'') ''*'' (Name ''annotations''))],
      Markdown,
      Code [Magic ''%opts Overlay [aspect=1]''],
      Code
        [Magic ''%%opts NdLayout [figure_size=100] Scatter [color_index=2] (cmap='Reds')'',
         Assign [Name ''countries'']
           (Set [Str ''United States'', Str ''Canada'', Str ''United Kingdom'']),
         Expr
           (Call
              (Attribute
                 (Call
                    (Attribute
                       (BinOp (Name ''gdp_curves'') ''*'' (Name ''gdp_unem_scatter''))
                       ''select'')
                    [Keyword ''Country'' (Name ''countries'')])
                 ''layout'')
              [Str ''Country''])],
      Markdown,
      Code
        [Magic ''%%opts Layout [fig_size=100] Scatter [color_index=2] (cmap='Reds')'',
         Expr
           (Call
              (Attribute
                 (BinOp
                    (BinOp
                       (BinOp
                          (Call (Name ''macro_overlay.relabel'')
                             [Str ''GDP Growth'', Keyword ''depth'' (Num ''1'')])
                          ''+''
                          (Call (Name ''macro.to.curve'')
                             [Str ''Year'',
                              Str ''Unemployment'',
                              List [Str ''Country''],
                              Keyword ''group'' (Str ''Unemployment'')]))
                       ''+''
                       (Call (Name ''macro.to.curve'')
                          [Str ''Year'',
                           Str ''Trade'',
                           List [Str ''Country''],
                           Keyword ''group'' (Str ''Trade'')]))
                    ''+''
                    (Call (Name ''macro.to.scatter'')
                       [Str ''GDP Growth'', Str ''Unemployment'', List [Str ''Country'']]))
                 ''cols'')
              [Num ''2''])]]"

subsection \<open>The Texas choropleth example\<close>

definition declaring_data_cell :: cell where
  "declaring_data_cell =
     (Code
        [ImportFrom ''bokeh.sampledata.us_counties'' [Alias ''data'' (Some ''counties'')],
         ImportFrom ''bokeh.sampledata.unemployment'' [Alias ''data'' (Some ''unemployment'')],
         Assign [Name ''counties'']
           (DictComp (Name ''code'') (Name ''county'')
              (Tuple [Name ''code'', Name ''county''])
              (Call (Name ''counties.items'') [])
              [Compare (Subscript (Name ''county'') (Str ''state'')) ''=='' (Str ''tx'')]),
         Assign [Name ''county_xs'']
           (ListComp
              (Subscript (Name ''county'') (Str ''lons''))
              (Name ''county'')
              (Call (Name ''counties.values'') [])
              []),
         Assign [Name ''county_ys'']
           (ListComp
              (Subscript (Name ''county'') (Str ''lats''))
              (Name ''county'')
              (Call (Name ''counties.values'') [])
              []),
         Assign [Name ''county_names'']
           (ListComp
              (Subscript (Name ''county'') (Str ''name''))
              (Name ''county'')
              (Call (Name ''counties.values'') [])
              []),
         Assign [Name ''county_rates'']
           (ListComp
              (Subscript (Name ''unemployment'') (Name ''county_id''))
              (Name ''county_id'')
              (Name ''counties'')
              []),
         Assign [Name ''county_polys'']
           (DictComp (Name ''name'')
              (Call (Name ''hv.Polygons'')
                 [Tuple [Name ''xs'', Name ''ys''],
                  Keyword ''level'' (Name ''rate''),
                  Keyword ''vdims'' (List [Str ''Unemployment''])])
              (Tuple [Name ''name'', Name ''xs'', Name ''ys'', Name ''rate''])
              (Call (Name ''zip'')
                 [Name ''county_names'',
                  Name ''county_xs'',
                  Name ''county_ys'',
                  Name ''county_rates''])
              []),
         Assign [Name ''choropleth'']
           (Call (Name ''hv.NdOverlay'')
              [Name ''county_polys'', Keyword ''kdims'' (List [Str ''County''])])])"

definition texas_choropleth :: "cell list" where
  "texas_choropleth =
     [Markdown,
      Code
        [Import [Alias ''numpy'' (Some ''np'')],
         Import [Alias ''holoviews'' (Some ''hv'')],
         Expr (Call (Name ''hv.extension'') [Str ''matplotlib'']),
         Magic (''%output fig='svg'' @ [CHR 0x27])],
      Markdown, declaring_data_cell, Markdown,
      Code
        [Assign [Name ''plot_opts'']
           (Call (Name ''dict'')
              [Keyword ''logz'' (Name ''True''),
               Keyword ''xaxis'' (Name ''None''),
               Keyword ''yaxis'' (Name ''None''),
               Keyword ''show_grid'' (Name ''False''),
               Keyword ''show_frame'' (Name ''False''),
               Keyword ''fig_size'' (Num ''200''),
               Keyword ''bgcolor'' (Str ''white'')]),
         Assign [Name ''style''] (Call (Name ''dict'') [Keyword ''edgecolor'' (Str ''white'')]),
         Expr
           (Call (Name ''choropleth'')
              [Dict [Str ''Polygons'']
                 [Dict [Str ''style'', Str ''plot''] [Name ''style'', Name ''plot_opts'']]])]]"

definition notebooks :: "cell list list" where
  "notebooks = [deploying_bokeh_apps, columnar_data, texas_choropleth]"

subsection \<open>What the cells contain\<close>

text \<open>
  \<open>expr_collect f e\<close> gathers what \<open>f\<close> finds at \<open>e\<close> and at every expression inside it;
  \<open>stmt_collect f s\<close> does the same for a statement and the statements nested in it
  (function bodies included).
\<close>

fun expr_collect :: "(expr \<Rightarrow> 'a list) \<Rightarrow> expr \<Rightarrow> 'a list" where
  "expr_collect f (Attribute e a) = f (Attribute e a) @ expr_collect f e"
| "expr_collect f (Call g args) =
     f (Call g args) @ expr_collect f g @ concat (map (expr_collect f) args)"
| "expr_collect f (Keyword k e) = f (Keyword k e) @ expr_collect f e"
| "expr_collect f (BinOp a op b) = f (BinOp a op b) @ expr_collect f a @ expr_collect f b"
| "expr_collect f (UnaryOp op a) = f (UnaryOp op a) @ expr_collect f a"
| "expr_collect f (Compare a op b) = f (Compare a op b) @ expr_collect f a @ expr_collect f b"
| "expr_collect f (Tuple es) = f (Tuple es) @ concat (map (expr_collect f) es)"
| "expr_collect f (List es) = f (List es) @ concat (map (expr_collect f) es)"
| "expr_collect f (Dict ks vs) =
     f (Dict ks vs) @ concat (map (expr_collect f) ks) @ concat (map (expr_collect f) vs)"
| "expr_collect f (Set es) = f (Set es) @ concat (map (expr_collect f) es)"
| "expr_collect f (Subscript e i) = f (Subscript e i) @ expr_collect f e @ expr_collect f i"
| "expr_collect f (Slice a b) =
     f (Slice a b) @ (case a of None \<Rightarrow> [] | Some e \<Rightarrow> expr_collect f e) @
       (case b of None \<Rightarrow> [] | Some e \<Rightarrow> expr_collect f e)"
| "expr_collect f (ListComp e t i cs) =
     f (ListComp e t i cs) @ expr_collect f e @ expr_collect f t @ expr_collect f i @
       concat (map (expr_collect f) cs)"
| "expr_collect f (DictComp k v t i cs) =
     f (DictComp k v t i cs) @ expr_collect f k @ expr_collect f v @ expr_collect f t @
       expr_collect f i @ concat (map (expr_collect f) cs)"
| "expr_collect f e = f e"

text \<open>The expressions a statement holds itself, those of nested statements apart.\<close>

fun own_exprs :: "stmt \<Rightarrow> expr list" where
  "own_exprs (Assign ts v) = ts @ [v]"
| "own_exprs (Expr e) = [e]"
| "own_exprs (Print es) = es"
| "own_exprs (Return e) = [e]"
| "own_exprs (If' c a b) = [c]"
| "own_exprs (For t i body) = [t, i]"
| "own_exprs (While c body) = [c]"
| "own_exprs (With e body) = [e]"
| "own_exprs (Raise e) = [e]"
| "own_exprs s = []"

fun stmt_collect :: "(stmt \<Rightarrow> 'a list) \<Rightarrow> stmt \<Rightarrow> 'a list" where
  "stmt_collect f (FunctionDef g xs body) =
     f (FunctionDef g xs body) @ concat (map (stmt_collect f) body)"
| "stmt_collect f (If' c a b) =
     f (If' c a b) @ concat (map (stmt_collect f) a) @ concat (map (stmt_collect f) b)"
| "stmt_collect f (For t i body) = f (For t i body) @ concat (map (stmt_collect f) body)"
| "stmt_collect f (While c body) = f (While c body) @ concat (map (stmt_collect f) body)"
| "stmt_collect f (Try body hs) =
     f (Try body hs) @ concat (map (stmt_collect f) body) @ concat (map (stmt_collect f) hs)"
| "stmt_collect f (With e body) = f (With e body) @ concat (map (stmt_collect f) body)"
| "stmt_collect f s = f s"

text \<open>The statements a cell runs one after the other when it is executed.\<close>

fun top_stmts :: "cell \<Rightarrow> stmt list" where
  "top_stmts Markdown = []"
| "top_stmts (Code ss) = ss"

definition in_stmts :: "(stmt \<Rightarrow> 'a list) \<Rightarrow> cell \<Rightarrow> 'a list" where
  "in_stmts f c = concat (map (stmt_collect f) (top_stmts c))"

definition in_exprs :: "(expr \<Rightarrow> 'a list) \<Rightarrow> cell \<Rightarrow> 'a list" where
  "in_exprs g c = in_stmts (\<lambda>s. concat (map (expr_collect g) (own_exprs s))) c"

text \<open>
  The statements that decide what runs next: a conditional, a loop, and what catches or
  raises an exception.
\<close>

datatype control_kind = Branch | Loop | Handler

fun control :: "stmt \<Rightarrow> control_kind list" where
  "control (If' c a b) = [Branch]"
| "control (For t i body) = [Loop]"
| "control (While c body) = [Loop]"
| "control (Try body hs) = [Handler]"
| "control (With e body) = [Handler]"
| "control (Raise e) = [Handler]"
| "control s = []"

text \<open>The control statements anywhere in a cell, and those at its top level.\<close>

definition controls :: "cell \<Rightarrow> control_kind list" where
  "controls c = in_stmts control c"

definition top_controls :: "cell \<Rightarrow> control_kind list" where
  "top_controls c = concat (map control (top_stmts c))"

text \<open>
  The functions the cells define, and those among them with a control statement in their
  own body.
\<close>

fun defined :: "stmt \<Rightarrow> string list" where
  "defined (FunctionDef f xs body) = [f]"
| "defined s = []"

fun branching :: "stmt \<Rightarrow> string list" where
  "branching (FunctionDef f xs body) = (if concat (map control body) = [] then [] else [f])"
| "branching s = []"

definition defined_functions :: "cell list \<Rightarrow> string list" where
  "defined_functions nb = concat (map (in_stmts defined) nb)"

definition branching_functions :: "cell list \<Rightarrow> string list" where
  "branching_functions nb = concat (map (in_stmts branching) nb)"

text \<open>
  A callback is a function the cells define and hand to a call by its name, as a
  positional or a keyword argument; the callee decides when it runs.
\<close>

fun passed :: "expr \<Rightarrow> string list" where
  "passed (Name x) = [x]"
| "passed (Keyword k (Name x)) = [x]"
| "passed e = []"

fun arguments :: "expr \<Rightarrow> string list" where
  "arguments (Call f args) = concat (map passed args)"
| "arguments e = []"

definition callbacks :: "cell list \<Rightarrow> string list" where
  "callbacks nb =
     filter (\<lambda>f. f \<in> set (concat (map (in_exprs arguments) nb))) (remdups (defined_functions nb))"

text \<open>The conditions of the comprehensions.\<close>

fun conditions :: "expr \<Rightarrow> expr list" where
  "conditions (ListComp e t i cs) = cs"
| "conditions (DictComp k v t i cs) = cs"
| "conditions e = []"

definition filters :: "cell list \<Rightarrow> expr list" where
  "filters nb = concat (map (in_exprs conditions) nb)"

text \<open>
  The specification's reading of the cells. A cell is straight-line when it has no
  control statement anywhere and defines no callback. A cell only uses the library (it
  loads data or calls the library's functions) when each of its statements is an import,
  a magic, an assignment, a print or an expression; a cell is of the specification's three
  kinds when it is that or markdown.
\<close>

definition straight_line :: "cell \<Rightarrow> bool" where
  "straight_line c \<longleftrightarrow> controls c = [] \<and> callbacks [c] = []"

fun simple :: "stmt \<Rightarrow> bool" where
  "simple (Import ms) = True"
| "simple (ImportFrom m ns) = True"
| "simple (Assign ts v) = True"
| "simple (Expr e) = True"
| "simple (Print es) = True"
| "simple (Magic m) = True"
| "simple s = False"

fun library_use :: "cell \<Rightarrow> bool" where
  "library_use Markdown = False"
| "library_use (Code ss) = list_all simple ss"

definition three_kinds :: "cell \<Rightarrow> bool" where
  "three_kinds c \<longleftrightarrow> c = Markdown \<or> library_use c"

chapter \<open>Properties\<close>

section \<open>The choropleth cell\<close>

lemma county_rates_Inr:
  "county_rates unemployment ids = Inr rates \<Longrightarrow>
     length rates = length ids \<and> (\<forall>i < length ids. unemployment (ids ! i) = Some (rates ! i))"
proof (induction ids arbitrary: rates)
  case Nil
  then show ?case by simp
next
  case (Cons a ids)
  then obtain r rs where r: "unemployment a = Some r"
    and rs: "county_rates unemployment ids = Inr rs" and eq: "rates = r # rs"
    by (auto split: option.splits sum.splits)
  from Cons.IH [OF rs] have len: "length rs = length ids"
    and at: "\<forall>i < length ids. unemployment (ids ! i) = Some (rs ! i)" by simp_all
  show ?case
  proof (intro conjI allI impI)
    show "length rates = length (a # ids)" using len eq by simp
  next
    fix i assume "i < length (a # ids)"
    then show "unemployment ((a # ids) ! i) = Some (rates ! i)"
      using r at eq by (cases i) simp_all
  qed
qed

text \<open>The cell runs through when every Texas county has a rate, and only then.\<close>

lemma county_rates_total:
  "set ids \<subseteq> dom unemployment \<Longrightarrow> \<exists>rates. county_rates unemployment ids = Inr rates"
  by (induction ids) auto

lemma county_rates_KeyError:
  "county_rates unemployment ids = Inl e \<Longrightarrow>
     \<exists>k \<in> set ids. e = KeyError k \<and> unemployment k = None"
  by (induction ids) (auto split: option.splits sum.splits)

lemma choropleth_total:
  "fst ` set (filter_tx counties) \<subseteq> dom unemployment \<Longrightarrow>
     \<exists>ov. choropleth counties unemployment = Inr ov"
  using county_rates_total [of "map fst (filter_tx counties)" unemployment]
  by (auto simp: choropleth_def Let_def)

lemma county_polys_entry:
  "county_polys rows d nm = Some p \<Longrightarrow>
     d nm = Some p \<or>
     (\<exists>xs ys rate. (nm, xs, ys, rate) \<in> set rows \<and>
        p = \<lparr>poly_xs = xs, poly_ys = ys, level = rate, vdims = [''Unemployment'']\<rparr>)"
proof (induction rows d rule: county_polys.induct)
  case (1 d)
  then show ?case by simp
next
  case (2 nm' xs ys rate rest d)
  from "2.IH" [OF "2.prems" [simplified]] show ?case
    by (auto split: if_splits)
qed

lemma zipped_row_origin:
  assumes "length rates = length counties"
    and "(nm, xs, ys, rate) \<in>
           set (zip (county_names counties)
                  (zip (county_xs counties) (zip (county_ys counties) rates)))"
  shows "\<exists>i < length counties.
           nm = name (snd (counties ! i)) \<and> xs = lons (snd (counties ! i)) \<and>
           ys = lats (snd (counties ! i)) \<and> rate = rates ! i"
proof -
  from assms(2) obtain i where
    i: "i < length (zip (county_names counties)
                  (zip (county_xs counties) (zip (county_ys counties) rates)))"
    and at: "zip (county_names counties)
               (zip (county_xs counties) (zip (county_ys counties) rates)) ! i
             = (nm, xs, ys, rate)"
    by (auto simp: in_set_conv_nth)
  from i assms(1) have il: "i < length counties"
    by (simp add: county_names_def)
  with at assms(1) have
    "nm = name (snd (counties ! i)) \<and> xs = lons (snd (counties ! i)) \<and>
     ys = lats (snd (counties ! i)) \<and> rate = rates ! i"
    by (simp add: county_names_def county_xs_def county_ys_def case_prod_unfold)
  with il show ?thesis by blast
qed

text \<open>
  C10. Every entry of \<open>county_polys\<close>, hence every layer of the NdOverlay, comes from one
  county of the sample data whose state is \<open>tx\<close>: the entry's name, its two coordinate
  lists and its level are that county's name, longitudes, latitudes and the unemployment
  rate recorded under that county's own identifier, and its value dimension is
  \<open>Unemployment\<close>.
\<close>

theorem choropleth_entry_from_one_tx_county:
  assumes "choropleth counties unemployment = Inr ov"
    and "overlay_items ov nm = Some p"
  shows "\<exists>code c. (code, c) \<in> set counties \<and> state c = ''tx'' \<and>
           nm = name c \<and> poly_xs p = lons c \<and> poly_ys p = lats c \<and>
           unemployment code = Some (level p) \<and> vdims p = [''Unemployment'']"
proof -
  define tx where "tx = filter_tx counties"
  from assms(1) obtain rates where
    rates: "county_rates unemployment (map fst tx) = Inr rates"
    and ov: "ov = \<lparr>overlay_items =
                 county_polys
                   (zip (county_names tx) (zip (county_xs tx) (zip (county_ys tx) rates)))
                   Map.empty,
               kdims = [''County'']\<rparr>"
    by (auto simp: choropleth_def Let_def tx_def split: sum.splits)
  from county_rates_Inr [OF rates] have len: "length rates = length tx"
    and at: "\<forall>i < length tx. unemployment (fst (tx ! i)) = Some (rates ! i)"
    by simp_all
  from assms(2) ov have
    "county_polys (zip (county_names tx) (zip (county_xs tx) (zip (county_ys tx) rates)))
       Map.empty nm = Some p"
    by simp
  from county_polys_entry [OF this] obtain xs ys rate where
    row: "(nm, xs, ys, rate) \<in>
            set (zip (county_names tx) (zip (county_xs tx) (zip (county_ys tx) rates)))"
    and p: "p = \<lparr>poly_xs = xs, poly_ys = ys, level = rate, vdims = [''Unemployment'']\<rparr>"
    by auto
  from zipped_row_origin [OF len row] obtain i where i: "i < length tx"
    and nm: "nm = name (snd (tx ! i))" and xs: "xs = lons (snd (tx ! i))"
    and ys: "ys = lats (snd (tx ! i))" and rate: "rate = rates ! i"
    by blast
  from i have mem: "tx ! i \<in> set tx" by simp
  then have in_counties: "(fst (tx ! i), snd (tx ! i)) \<in> set counties"
    and is_tx: "state (snd (tx ! i)) = ''tx''"
    by (auto simp: tx_def filter_tx_def)
  from at i rate have "unemployment (fst (tx ! i)) = Some rate" by simp
  with in_counties is_tx nm xs ys p show ?thesis
    by (intro exI [of _ "fst (tx ! i)"] exI [of _ "snd (tx ! i)"]) simp
qed

lemma demo_choropleth:
  "choropleth demo_counties demo_unemployment =
     Inr \<lparr>overlay_items =
            [''Anderson'' \<mapsto> \<lparr>poly_xs = [-95.7, -95.4], poly_ys = [31.6, 31.9], level = 9.1,
                               vdims = [''Unemployment'']\<rparr>,
             ''Andrews'' \<mapsto> \<lparr>poly_xs = [-103.0, -102.2], poly_ys = [32.1, 32.5], level = 6,
                              vdims = [''Unemployment'']\<rparr>],
          kdims = [''County'']\<rparr>"
  by (simp add: choropleth_def filter_tx_def county_names_def county_xs_def county_ys_def
      demo_counties_def demo_unemployment_def)

theorem choropleth_entry_witness:
  "\<exists>ov p. choropleth demo_counties demo_unemployment = Inr ov \<and>
      overlay_items ov ''Andrews'' = Some p \<and> level p = 6 \<and>
      (\<exists>code c. (code, c) \<in> set demo_counties \<and> state c = ''tx'' \<and>
           ''Andrews'' = name c \<and> poly_xs p = lons c \<and> poly_ys p = lats c \<and>
           demo_unemployment code = Some (level p) \<and> vdims p = [''Unemployment''])"
proof -
  let ?p = "\<lparr>poly_xs = [-103.0, -102.2], poly_ys = [32.1, 32.5], level = 6 :: real,
             vdims = [''Unemployment'']\<rparr>"
  let ?ov = "\<lparr>overlay_items =
            [''Anderson'' \<mapsto> \<lparr>poly_xs = [-95.7, -95.4], poly_ys = [31.6, 31.9], level = 9.1,
                               vdims = [''Unemployment'']\<rparr>,
             ''Andrews'' \<mapsto> ?p],
          kdims = [''County'']\<rparr>"
  have ov: "choropleth demo_counties demo_unemployment = Inr ?ov"
    by (rule demo_choropleth)
  have p: "overlay_items ?ov ''Andrews'' = Some ?p" by simp
  from choropleth_entry_from_one_tx_county [OF ov p] ov p show ?thesis
    by (intro exI [of _ ?ov] exI [of _ ?p]) simp
qed

section \<open>The slider\<close>

lemma animate_update_frame:
  "slider_start (animate_update a b s) = slider_start s"
  "slider_end (animate_update a b s) = slider_end s"
  by (simp_all add: animate_update_def Let_def)

lemma animate_update_value:
  "slider_value (animate_update a b s) =
     (if slider_value s + 0.2 > b then a else slider_value s + 0.2)"
  by (simp add: animate_update_def Let_def)

text \<open>One step keeps the value between any two bounds that are in order.\<close>

lemma animate_update_preserves:
  assumes "a \<le> b" "a \<le> slider_value s" "slider_value s \<le> b"
  shows "a \<le> slider_value (animate_update a b s) \<and> slider_value (animate_update a b s) \<le> b"
  using assms by (simp add: animate_update_value)

lemma slider_after_bounds:
  "slider_start (slider_after n) = 0 \<and> slider_end (slider_after n) = 2 * pi"
  by (induction n) (simp_all add: animate_update_frame new_slider_def start_def end'_def)

lemma slider_after_inv:
  "0 \<le> slider_value (slider_after n) \<and> slider_value (slider_after n) \<le> 2 * pi"
proof (induction n)
  case 0
  show ?case by (simp add: new_slider_def start_def)
next
  case (Suc n)
  have "start \<le> end'" by (simp add: start_def end'_def)
  from animate_update_preserves [OF this, of "slider_after n"] Suc
  show ?case by (simp add: start_def end'_def)
qed

lemma three_steps: "slider_value (slider_after 3) = 0.6"
proof -
  have "(2::real) \<le> pi" by (rule pi_ge_two)
  then show ?thesis
    by (simp add: eval_nat_numeral animate_update_value new_slider_def start_def end'_def)
qed

text \<open>
  C9. In \<open>modify_doc\<close> the slider's bounds stay \<open>0\<close> and \<open>2 * pi\<close>, and from the initial
  value \<open>start\<close> the value is within the bounds after any number of calls of
  \<open>animate_update\<close>; each call either adds 0.2 (when the sum does not exceed the end) or
  goes back to the start (when it does).
\<close>

theorem slider_value_stays_in_range:
  "slider_start (slider_after n) = 0 \<and> slider_end (slider_after n) = 2 * pi \<and>
   slider_start (slider_after n) \<le> slider_value (slider_after n) \<and>
   slider_value (slider_after n) \<le> slider_end (slider_after n) \<and>
   (slider_value (slider_after (Suc n)) = slider_value (slider_after n) + 0.2 \<and>
      slider_value (slider_after n) + 0.2 \<le> slider_end (slider_after n)
    \<or> slider_value (slider_after (Suc n)) = slider_start (slider_after n) \<and>
      slider_end (slider_after n) < slider_value (slider_after n) + 0.2)"
  using slider_after_bounds [of n] slider_after_inv [of n]
  by (auto simp: animate_update_value start_def end'_def)

theorem slider_value_witness:
  "slider_value (slider_after 3) = 0.6 \<and>
   slider_start (slider_after 3) \<le> slider_value (slider_after 3) \<and>
   slider_value (slider_after 3) \<le> slider_end (slider_after 3)"
  using slider_value_stays_in_range [of 3] three_steps by simp

section \<open>The selection callback\<close>










text \<open>An index that is not a row of the array ends the callback with IndexError.\<close>

lemma take_rows_out_of_range:
  "i \<in> set idx \<Longrightarrow> i < - int (length a) \<or> int (length a) \<le> i \<Longrightarrow>
     \<exists>k. take_rows a idx = Inl (IndexError k)"
  by (induction idx) (auto split: sum.splits)




section \<open>Columnar elements\<close>

lemma position_nth: "distinct xs \<Longrightarrow> i < length xs \<Longrightarrow> position (xs ! i) xs = i"
proof (induction xs arbitrary: i)
  case Nil
  then show ?case by simp
next
  case (Cons a xs)
  then show ?case by (cases i) auto
qed

lemma resolve_Some:
  "resolve fs dims cols = Some s \<Longrightarrow> \<exists>f \<in> set fs. init_storage f dims cols = Some s"
  by (induction fs) (auto split: option.splits)

lemma init_storage_format:
  "init_storage f dims cols = Some s \<Longrightarrow> format_of s = f"
  by (cases f) (auto split: if_splits)

lemma n_rows_eq: "cols \<noteq> [] \<Longrightarrow> \<forall>c \<in> set cols. length c = n \<Longrightarrow> n_rows cols = n"
  by (cases cols) (auto simp: n_rows_def)

lemma number_roundtrip: "is_number v \<Longrightarrow> Number (number_of v) = v"
  by (cases v) auto

text \<open>Reading the columns back from any backend gives the columns that went in.\<close>

lemma init_storage_table:
  assumes "distinct dims" "length cols = length dims" "\<forall>c \<in> set cols. length c = n"
    and "init_storage f dims cols = Some s"
  shows "map (dimension_values s dims) dims = cols"
proof (rule nth_equalityI)
  show "length (map (dimension_values s dims) dims) = length cols" using assms by simp
next
  fix j assume "j < length (map (dimension_values s dims) dims)"
  then have j: "j < length dims" by simp
  then have jc: "j < length cols" using assms by simp
  then have ne: "cols \<noteq> []" by auto
  have nr: "n_rows cols = n" using n_rows_eq [OF ne assms(3)] .
  have lenj: "length (cols ! j) = n" using assms(3) jc by simp
  have pos: "position (dims ! j) dims = j" using position_nth [OF assms(1) j] .
  show "map (dimension_values s dims) dims ! j = cols ! j"
  proof (cases f)
    case array_format
    with assms(4) have num: "list_all (list_all is_number) cols"
      and s: "s = Array (transpose_to n (map (map number_of) cols))"
      by (auto simp: nr split: if_splits)
    from num jc have numj: "\<forall>v \<in> set (cols ! j). is_number v"
      by (auto simp: list_all_iff)
    have "map (\<lambda>r. Number (r ! j)) (transpose_to n (map (map number_of) cols)) = cols ! j"
    proof (rule nth_equalityI)
      show "length (map (\<lambda>r. Number (r ! j)) (transpose_to n (map (map number_of) cols))) =
              length (cols ! j)"
        by (simp add: transpose_to_def lenj)
    next
      fix i
      assume "i < length (map (\<lambda>r. Number (r ! j)) (transpose_to n (map (map number_of) cols)))"
      then have i: "i < n" by (simp add: transpose_to_def)
      then have "is_number (cols ! j ! i)" using numj lenj by simp
      then show "map (\<lambda>r. Number (r ! j)) (transpose_to n (map (map number_of) cols)) ! i =
                   cols ! j ! i"
        using i jc lenj by (simp add: transpose_to_def number_roundtrip)
    qed
    with s j pos show ?thesis by simp
  next
    case dictionary_format
    with assms(4) have s: "s = Dictionary (zip dims cols)" by simp
    have "map_of (zip dims cols) (dims ! j) = Some (cols ! j)"
      using assms(1,2) j by (simp add: map_of_zip_nth)
    with s j show ?thesis by simp
  next
    case dataframe_format
    with assms(4) have s: "s = Dataframe dims (transpose_to n cols)" by (simp add: nr)
    have "map (\<lambda>r. r ! j) (transpose_to n cols) = cols ! j"
    proof (rule nth_equalityI)
      show "length (map (\<lambda>r. r ! j) (transpose_to n cols)) = length (cols ! j)"
        by (simp add: transpose_to_def lenj)
    next
      fix i assume "i < length (map (\<lambda>r. r ! j) (transpose_to n cols))"
      then have i: "i < n" by (simp add: transpose_to_def)
      then show "map (\<lambda>r. r ! j) (transpose_to n cols) ! i = cols ! j ! i"
        using jc by (simp add: transpose_to_def)
    qed
    with s j pos show ?thesis by simp
  qed
qed

lemma resolve_total:
  "\<exists>f \<in> set fs. init_storage f dims cols \<noteq> None \<Longrightarrow> \<exists>s. resolve fs dims cols = Some s"
  by (induction fs) (auto split: option.splits)

text \<open>The dictionary and the dataframe backend hold any columns, the array numeric ones.\<close>

lemma init_storage_succeeds:
  "init_storage dictionary_format dims cols \<noteq> None"
  "init_storage dataframe_format dims cols \<noteq> None"
  "list_all (list_all is_number) cols \<Longrightarrow> init_storage array_format dims cols \<noteq> None"
  by simp_all

lemma constructed_table:
  assumes "distinct (kd @ vd)" "length cols = length (kd @ vd)" "\<forall>c \<in> set cols. length c = n"
    and "Columns kd vd datatype cols = Some e"
  shows "ce_kdims e = kd \<and> ce_vdims e = vd \<and> table e = cols \<and>
         format_of (ce_data e) \<in> set datatype"
proof -
  from assms(4) obtain s where s: "resolve datatype (kd @ vd) cols = Some s"
    and e: "e = \<lparr>ce_kdims = kd, ce_vdims = vd, ce_data = s\<rparr>"
    by (auto simp: Columns_def)
  from resolve_Some [OF s] obtain f where f: "f \<in> set datatype"
    and i: "init_storage f (kd @ vd) cols = Some s" by blast
  have "table e = cols"
    using init_storage_table [OF assms(1,2,3) i] e by (simp add: table_def)
  with init_storage_format [OF i] f e show ?thesis by simp
qed

text \<open>
  C1 as stated fails for the pair of the array and the dictionary backend: from the
  columns of the tutorial's bar chart, which are well formed (two distinct dimensions, two
  columns of four values), the dictionary and the dataframe backend each construct an
  element, and the array backend, which holds numbers only, constructs none.
\<close>

theorem array_backend_rejects_text_column:
  "distinct ([''x''] @ [''y'']) \<and> length bars_columns = length ([''x''] @ [''y'']) \<and>
   list_all (\<lambda>c. length c = 4) bars_columns \<and>
   Columns [''x''] [''y''] [array_format] bars_columns = None \<and>
   Columns [''x''] [''y''] [dictionary_format] bars_columns =
     Some \<lparr>ce_kdims = [''x''], ce_vdims = [''y''],
            ce_data = Dictionary
              [(''x'', [Text ''C'', Text ''A'', Text ''B'', Text ''D'']),
               (''y'', [Number 2, Number 7, Number 3, Number 4])]\<rparr> \<and>
   Columns [''x''] [''y''] [dataframe_format] bars_columns =
     Some \<lparr>ce_kdims = [''x''], ce_vdims = [''y''],
            ce_data = Dataframe [''x'', ''y'']
              [[Text ''C'', Number 2], [Text ''A'', Number 7], [Text ''B'', Number 3],
               [Text ''D'', Number 4]]\<rparr> \<and>
   \<not> (\<exists>e1 e2. Columns [''x''] [''y''] [array_format] bars_columns = Some e1 \<and>
          Columns [''x''] [''y''] [dictionary_format] bars_columns = Some e2 \<and>
          table e1 = table e2)"
  by (simp add: Columns_def bars_columns_def transpose_to_def n_rows_def upt_rec)

text \<open>
  C1, amended. Take the columns of an element's dimensions (one column for each of the
  distinct dimensions, all of one length) and two lists of allowed backends, each holding
  a backend that can interpret the columns: the dictionary or the dataframe backend, or
  the array backend when every value of every column is a number. Then both constructions
  succeed, and the two elements have the same key dimensions, the same value dimensions
  and the same tabular data, namely the columns given; they differ at most in the backend,
  which for each is one its list allows. This covers every pair of the three backends on
  numeric columns, every pair of the dictionary and the dataframe backend on any columns,
  and the fallback (longer lists).
\<close>

theorem storage_backends_interchangeable:
  assumes "distinct (kd @ vd)" "length cols = length (kd @ vd)" "\<forall>c \<in> set cols. length c = n"
    and "\<exists>f \<in> set datatype1.
           f \<noteq> array_format \<or> (\<forall>c \<in> set cols. \<forall>v \<in> set c. \<exists>r. v = Number r)"
    and "\<exists>f \<in> set datatype2.
           f \<noteq> array_format \<or> (\<forall>c \<in> set cols. \<forall>v \<in> set c. \<exists>r. v = Number r)"
  shows "\<exists>e1 e2. Columns kd vd datatype1 cols = Some e1 \<and>
           Columns kd vd datatype2 cols = Some e2 \<and>
           ce_kdims e1 = kd \<and> ce_kdims e2 = kd \<and> ce_vdims e1 = vd \<and> ce_vdims e2 = vd \<and>
           table e1 = cols \<and> table e2 = cols \<and>
           format_of (ce_data e1) \<in> set datatype1 \<and> format_of (ce_data e2) \<in> set datatype2"
proof -
  have can: "init_storage f (kd @ vd) cols \<noteq> None"
    if "f \<noteq> array_format \<or> (\<forall>c \<in> set cols. \<forall>v \<in> set c. \<exists>r. v = Number r)" for f
  proof (cases f)
    case array_format
    with that have "\<forall>c \<in> set cols. \<forall>v \<in> set c. is_number v" by fastforce
    then have "list_all (list_all is_number) cols" by (simp add: list_all_iff)
    with array_format show ?thesis by simp
  qed simp_all
  from assms(4) can have "\<exists>f \<in> set datatype1. init_storage f (kd @ vd) cols \<noteq> None"
    by blast
  from resolve_total [OF this] obtain e1 where e1: "Columns kd vd datatype1 cols = Some e1"
    by (auto simp: Columns_def)
  from assms(5) can have "\<exists>f \<in> set datatype2. init_storage f (kd @ vd) cols \<noteq> None"
    by blast
  from resolve_total [OF this] obtain e2 where e2: "Columns kd vd datatype2 cols = Some e2"
    by (auto simp: Columns_def)
  from constructed_table [OF assms(1,2,3) e1] constructed_table [OF assms(1,2,3) e2] e1 e2
  show ?thesis by simp
qed

lemma demo_array:
  "Columns [''x''] [''y''] default_datatype [demo_xs, demo_ys] =
     Some \<lparr>ce_kdims = [''x''], ce_vdims = [''y''],
            ce_data = Array [[0, 0], [1, 0.5], [2, 1]]\<rparr>"
  by (simp add: Columns_def default_datatype_def demo_xs_def demo_ys_def transpose_to_def
      n_rows_def upt_rec)

lemma demo_dataframe:
  "Columns [''x''] [''y''] [dataframe_format] [demo_xs, demo_ys] =
     Some \<lparr>ce_kdims = [''x''], ce_vdims = [''y''],
            ce_data = Dataframe [''x'', ''y'']
              [[Number 0, Number 0], [Number 1, Number 0.5], [Number 2, Number 1]]\<rparr>"
  by (simp add: Columns_def demo_xs_def demo_ys_def transpose_to_def n_rows_def upt_rec)

theorem storage_backends_witness:
  "table \<lparr>ce_kdims = [''x''], ce_vdims = [''y''],
           ce_data = Array [[0, 0], [1, 0.5], [2, 1]]\<rparr> = [demo_xs, demo_ys] \<and>
   table \<lparr>ce_kdims = [''x''], ce_vdims = [''y''],
           ce_data = Dataframe [''x'', ''y'']
             [[Number 0, Number 0], [Number 1, Number 0.5], [Number 2, Number 1]]\<rparr> =
     [demo_xs, demo_ys]"
proof -
  have d: "distinct ([''x''] @ [''y''])" by simp
  have l: "length [demo_xs, demo_ys] = length ([''x''] @ [''y''])" by simp
  have n: "\<forall>c \<in> set [demo_xs, demo_ys]. length c = 3"
    by (simp add: demo_xs_def demo_ys_def)
  have a: "\<exists>f \<in> set default_datatype. f \<noteq> array_format \<or>
             (\<forall>c \<in> set [demo_xs, demo_ys]. \<forall>v \<in> set c. \<exists>r. v = Number r)"
    by (simp add: default_datatype_def)
  have b: "\<exists>f \<in> set [dataframe_format]. f \<noteq> array_format \<or>
             (\<forall>c \<in> set [demo_xs, demo_ys]. \<forall>v \<in> set c. \<exists>r. v = Number r)"
    by simp
  from storage_backends_interchangeable [OF d l n a b] demo_array demo_dataframe
  show ?thesis by auto
qed

section \<open>Control flow in the cells\<close>

lemmas named_cells =
  selected_info_cell_def sine_cell_def show_callback_cell_def periodic_sine_cell_def
  modify_doc_cell_def declaring_data_cell_def

lemma in_deploying_bokeh_apps:
  "selected_info_cell \<in> set deploying_bokeh_apps"
  "modify_doc_cell \<in> set deploying_bokeh_apps"
  by (simp_all add: deploying_bokeh_apps_def)

lemma in_notebooks: "deploying_bokeh_apps \<in> set notebooks"
  by (simp add: notebooks_def)

lemma controls_deploying_bokeh_apps:
  "map controls deploying_bokeh_apps =
     [[], [], [], [Branch], [], [], [], [], [], [], [], [], [], [], [], [], [], [], [], [],
      [], [], [], [], [], [], [], [], [], [], [], [], [], [], [], [], [], [], [], [],
      [], [], [], [], [], [], [], [], [], [], [], [], [], [], [], [], [Branch, Branch], [], []]"
  by (simp add: deploying_bokeh_apps_def named_cells controls_def in_stmts_def)

lemma controls_columnar_data: "list_all (\<lambda>c. controls c = []) columnar_data"
  by (simp add: columnar_data_def controls_def in_stmts_def)

lemma controls_texas_choropleth: "list_all (\<lambda>c. controls c = []) texas_choropleth"
  by (simp add: texas_choropleth_def named_cells controls_def in_stmts_def)

lemma top_controls_deploying_bokeh_apps:
  "list_all (\<lambda>c. top_controls c = []) deploying_bokeh_apps"
  by (simp add: deploying_bokeh_apps_def named_cells top_controls_def)

lemma no_loop_or_handler:
  "nb \<in> set notebooks \<Longrightarrow> c \<in> set nb \<Longrightarrow>
     Loop \<notin> set (controls c) \<and> Handler \<notin> set (controls c)"
proof -
  assume nb: "nb \<in> set notebooks" and c: "c \<in> set nb"
  from nb consider "nb = deploying_bokeh_apps" | "nb = columnar_data" | "nb = texas_choropleth"
    by (auto simp: notebooks_def)
  then show ?thesis
  proof cases
    case 1
    with c have "controls c \<in> set (map controls deploying_bokeh_apps)" by simp
    then show ?thesis unfolding controls_deploying_bokeh_apps by auto
  next
    case 2
    with c controls_columnar_data show ?thesis by (simp add: list_all_iff)
  next
    case 3
    with c controls_texas_choropleth show ?thesis by (simp add: list_all_iff)
  qed
qed

lemma control_collected: "set (control s) \<subseteq> set (stmt_collect control s)"
  by (cases s) simp_all

lemma top_controls_subset: "set (top_controls c) \<subseteq> set (controls c)"
proof (cases c)
  case Markdown
  then show ?thesis by (simp add: top_controls_def)
next
  case (Code ss)
  then show ?thesis
    using control_collected by (fastforce simp: top_controls_def controls_def in_stmts_def)
qed

lemma top_level_no_control:
  "nb \<in> set notebooks \<Longrightarrow> c \<in> set nb \<Longrightarrow> top_controls c = []"
proof -
  assume nb: "nb \<in> set notebooks" and c: "c \<in> set nb"
  have sub: "controls c = [] \<Longrightarrow> top_controls c = []" for c
    using top_controls_subset [of c] by simp
  from nb consider "nb = deploying_bokeh_apps" | "nb = columnar_data" | "nb = texas_choropleth"
    by (auto simp: notebooks_def)
  then show ?thesis
  proof cases
    case 1
    with c top_controls_deploying_bokeh_apps show ?thesis by (simp add: list_all_iff)
  next
    case 2
    with c controls_columnar_data sub show ?thesis by (simp add: list_all_iff)
  next
    case 3
    with c controls_texas_choropleth sub show ?thesis by (simp add: list_all_iff)
  qed
qed

lemma branching_functions_notebooks:
  "map branching_functions notebooks = [[''selected_info'', ''animate_update'', ''animate''], [], []]"
  by (simp add: notebooks_def deploying_bokeh_apps_def columnar_data_def texas_choropleth_def
      named_cells branching_functions_def in_stmts_def)

lemma defined_functions_notebooks:
  "map defined_functions notebooks =
     [[''selected_info'', ''sine'', ''show_callback'', ''sine'', ''sine'', ''modify_doc'',
       ''animate_update'', ''slider_update'', ''animate''], [], []]"
  by (simp add: notebooks_def deploying_bokeh_apps_def columnar_data_def texas_choropleth_def
      named_cells defined_functions_def in_stmts_def)

lemma callbacks_deploying_bokeh_apps:
  "callbacks deploying_bokeh_apps =
     [''selected_info'', ''show_callback'', ''sine'', ''modify_doc'', ''animate_update'',
      ''slider_update'', ''animate'']"
  by (simp add: deploying_bokeh_apps_def named_cells callbacks_def defined_functions_def
      in_stmts_def in_exprs_def)

lemma callbacks_none:
  "defined_functions nb = [] \<Longrightarrow> callbacks nb = []"
  by (simp add: callbacks_def)

lemma callbacks_notebooks:
  "map callbacks notebooks =
     [[''selected_info'', ''show_callback'', ''sine'', ''modify_doc'', ''animate_update'',
       ''slider_update'', ''animate''], [], []]"
  using defined_functions_notebooks callbacks_deploying_bokeh_apps
  by (simp add: notebooks_def callbacks_none)

lemma filters_notebooks:
  "map filters notebooks =
     [[], [], [Compare (Subscript (Name ''county'') (Str ''state'')) ''=='' (Str ''tx'')]]"
  by (simp add: notebooks_def deploying_bokeh_apps_def columnar_data_def texas_choropleth_def
      named_cells filters_def in_stmts_def in_exprs_def)

text \<open>
  C2 as stated fails: the cell that defines \<open>selected_info\<close> is a cell of the first
  notebook, it has a conditional statement, and it defines a callback.
\<close>

theorem selected_info_cell_not_straight_line:
  "selected_info_cell \<in> set deploying_bokeh_apps \<and> deploying_bokeh_apps \<in> set notebooks \<and>
   controls selected_info_cell = [Branch] \<and>
   callbacks [selected_info_cell] = [''selected_info''] \<and>
   \<not> straight_line selected_info_cell"
proof -
  have b: "controls selected_info_cell = [Branch]"
    by (simp add: selected_info_cell_def controls_def in_stmts_def)
  have c: "callbacks [selected_info_cell] = [''selected_info'']"
    by (simp add: selected_info_cell_def callbacks_def defined_functions_def in_stmts_def
        in_exprs_def)
  from b c in_deploying_bokeh_apps(1) in_notebooks show ?thesis
    by (simp add: straight_line_def)
qed

text \<open>
  C2, amended. In every cell of every notebook the top-level statements run in sequence:
  none of them is a conditional, and no cell has a loop statement or an exception handler
  anywhere. The repository does define conditional branching and callbacks: the functions
  \<open>selected_info\<close>, \<open>animate_update\<close> and \<open>animate\<close> branch on a conditional in their
  body; one comprehension, in the choropleth notebook, filters on the county's state; and
  the functions \<open>selected_info\<close>, \<open>show_callback\<close>, \<open>sine\<close>, \<open>modify_doc\<close>,
  \<open>animate_update\<close>, \<open>slider_update\<close> and \<open>animate\<close> are handed to the library as
  callbacks.
\<close>

theorem cells_straight_line_at_top_level:
  "(\<forall>nb \<in> set notebooks. \<forall>c \<in> set nb.
      top_controls c = [] \<and> Loop \<notin> set (controls c) \<and> Handler \<notin> set (controls c)) \<and>
   map branching_functions notebooks =
     [[''selected_info'', ''animate_update'', ''animate''], [], []] \<and>
   map filters notebooks =
     [[], [], [Compare (Subscript (Name ''county'') (Str ''state'')) ''=='' (Str ''tx'')]] \<and>
   map callbacks notebooks =
     [[''selected_info'', ''show_callback'', ''sine'', ''modify_doc'', ''animate_update'',
       ''slider_update'', ''animate''], [], []]"
  using no_loop_or_handler top_level_no_control branching_functions_notebooks filters_notebooks
    callbacks_notebooks
  by blast

theorem cells_straight_line_witness:
  "top_controls modify_doc_cell = [] \<and> controls modify_doc_cell = [Branch, Branch] \<and>
   Loop \<notin> set (controls modify_doc_cell)"
proof -
  have "controls modify_doc_cell = [Branch, Branch]"
    by (simp add: modify_doc_cell_def controls_def in_stmts_def)
  with cells_straight_line_at_top_level in_notebooks in_deploying_bokeh_apps(2)
  show ?thesis by blast
qed

section \<open>No error handling\<close>

text \<open>
  C7. No cell of any notebook catches, transforms or retries a failure: nowhere in a cell,
  function bodies included, is there an exception handler, a \<open>raise\<close> or a loop
  statement. So an exception raised in a cell leaves it as it was raised (in the
  embedding of the choropleth cell and of \<open>selected_info\<close>: lemmas
  \<open>county_rates_KeyError\<close> and \<open>take_rows_out_of_range\<close>).
\<close>

theorem no_cell_handles_errors:
  "\<forall>nb \<in> set notebooks. \<forall>c \<in> set nb.
     Handler \<notin> set (controls c) \<and> Loop \<notin> set (controls c)"
  using no_loop_or_handler by blast

theorem no_cell_handles_errors_witness:
  "Handler \<notin> set (controls selected_info_cell) \<and> Loop \<notin> set (controls selected_info_cell)"
  using no_cell_handles_errors in_notebooks in_deploying_bokeh_apps(1) by blast

section \<open>The kinds of cells\<close>

text \<open>
  C3 as stated fails: the cell that defines \<open>modify_doc\<close> is a cell of the first notebook
  that is neither markdown nor made of data loading and library calls only; it defines
  five functions, two of them with a conditional.
\<close>

theorem modify_doc_cell_has_own_logic:
  "modify_doc_cell \<in> set deploying_bokeh_apps \<and> deploying_bokeh_apps \<in> set notebooks \<and>
   defined_functions [modify_doc_cell] =
     [''sine'', ''modify_doc'', ''animate_update'', ''slider_update'', ''animate''] \<and>
   branching_functions [modify_doc_cell] = [''animate_update'', ''animate''] \<and>
   \<not> three_kinds modify_doc_cell"
proof -
  have d: "defined_functions [modify_doc_cell] =
     [''sine'', ''modify_doc'', ''animate_update'', ''slider_update'', ''animate'']"
    by (simp add: modify_doc_cell_def defined_functions_def in_stmts_def)
  have b: "branching_functions [modify_doc_cell] = [''animate_update'', ''animate'']"
    by (simp add: modify_doc_cell_def branching_functions_def in_stmts_def)
  have k: "\<not> three_kinds modify_doc_cell"
    by (simp add: modify_doc_cell_def three_kinds_def)
  from d b k in_deploying_bokeh_apps(2) in_notebooks show ?thesis by simp
qed

lemma kinds_deploying_bokeh_apps:
  "list_all (\<lambda>c. c = Markdown \<or> library_use c \<or>
       c \<in> set [selected_info_cell, sine_cell, show_callback_cell, periodic_sine_cell,
                 modify_doc_cell])
     deploying_bokeh_apps"
  by (simp add: deploying_bokeh_apps_def)

lemma kinds_columnar_data: "list_all (\<lambda>c. c = Markdown \<or> library_use c) columnar_data"
  by (simp add: columnar_data_def)

lemma kinds_texas_choropleth: "list_all (\<lambda>c. c = Markdown \<or> library_use c) texas_choropleth"
  by (simp add: texas_choropleth_def named_cells)

lemma defining_cells:
  "map (\<lambda>c. defined_functions [c])
     [selected_info_cell, sine_cell, show_callback_cell, periodic_sine_cell, modify_doc_cell] =
   [[''selected_info''], [''sine''], [''show_callback''], [''sine''],
    [''sine'', ''modify_doc'', ''animate_update'', ''slider_update'', ''animate'']]"
  by (simp add: named_cells defined_functions_def in_stmts_def)

text \<open>
  C3, amended. Every cell of every notebook is markdown, or a code cell whose statements
  are imports, magics, assignments, prints and expressions (data loading and calls of the
  library), or one of the five code cells of the first notebook that define functions of
  their own: \<open>selected_info\<close>; \<open>sine\<close>; \<open>show_callback\<close>; \<open>sine\<close>; and \<open>sine\<close>,
  \<open>modify_doc\<close>, \<open>animate_update\<close>, \<open>slider_update\<close>, \<open>animate\<close>.
\<close>

theorem cells_of_four_kinds:
  "(\<forall>nb \<in> set notebooks. \<forall>c \<in> set nb.
      c = Markdown \<or> library_use c \<or>
      c \<in> set [selected_info_cell, sine_cell, show_callback_cell, periodic_sine_cell,
                modify_doc_cell]) \<and>
   map (\<lambda>c. defined_functions [c])
     [selected_info_cell, sine_cell, show_callback_cell, periodic_sine_cell, modify_doc_cell] =
   [[''selected_info''], [''sine''], [''show_callback''], [''sine''],
    [''sine'', ''modify_doc'', ''animate_update'', ''slider_update'', ''animate'']]"
proof -
  have "c = Markdown \<or> library_use c \<or>
      c \<in> set [selected_info_cell, sine_cell, show_callback_cell, periodic_sine_cell,
                modify_doc_cell]"
    if nb: "nb \<in> set notebooks" and c: "c \<in> set nb" for nb c
  proof -
    from nb consider "nb = deploying_bokeh_apps" | "nb = columnar_data" | "nb = texas_choropleth"
      by (auto simp: notebooks_def)
    then show ?thesis
    proof cases
      case 1
      with c kinds_deploying_bokeh_apps show ?thesis unfolding list_all_iff by blast
    next
      case 2
      with c kinds_columnar_data show ?thesis unfolding list_all_iff by blast
    next
      case 3
      with c kinds_texas_choropleth show ?thesis unfolding list_all_iff by blast
    qed
  qed
  with defining_cells show ?thesis by blast
qed

theorem cells_of_four_kinds_witness:
  "deploying_bokeh_apps \<in> set notebooks \<and> selected_info_cell \<in> set deploying_bokeh_apps \<and>
   selected_info_cell \<noteq> Markdown \<and> \<not> library_use selected_info_cell \<and>
   selected_info_cell \<in> set [selected_info_cell, sine_cell, show_callback_cell,
     periodic_sine_cell, modify_doc_cell]"
proof -
  have "selected_info_cell \<noteq> Markdown" "\<not> library_use selected_info_cell"
    by (simp_all add: selected_info_cell_def)
  with cells_of_four_kinds in_notebooks in_deploying_bokeh_apps(1) show ?thesis by blast
qed

end
